theory Spec2Isabelle
  imports Main "HOL-Library.Word"
begin

unbundle bit_operations_syntax

section \<open>Machine types and errors\<close>

type_synonym byte = "8 word"
type_synonym uint16 = "16 word"
type_synonym uint32 = "32 word"

text \<open>
  Every \<^verbatim>\<open>xerrors.Errorf\<close> of \<^verbatim>\<open>packages/ledgerstate/transaction.go\<close> is one constructor,
  named after what the message says and carrying the error it wraps. \<open>ReadTooManyBytes\<close> is
  the error of the marshalutil reads, \<open>ExternalError\<close> an error of a parser that lives
  outside that file.
\<close>

datatype error =
    ReadTooManyBytes
  | ExternalError nat
  | TypeParseFailed error
  | TransactionIDFromMarshalUtilFailed error
  | TransactionIDParseFailed error
  | TransactionFromMarshalUtilFailed error
  | PayloadSizeParseFailed error
  | PayloadTypeParseFailed error
  | PayloadTypeMismatch uint32 uint32
  | EssenceParseFailed error
  | UnlockBlocksParseFailed error
  | ParsedBytesMismatch int uint32
  | UnlockBlocksInputsMismatch nat nat
  | EssenceFromMarshalUtilFailed error
  | VersionParseFailed error
  | InputsParseFailed error
  | OutputsParseFailed error
  | PayloadParseFailed error
  | VersionFromMarshalUtilFailed error
  | VersionByteParseFailed "error option"

text \<open>The panic of \<^verbatim>\<open>NewTransaction\<close>, with the two amounts of its message.\<close>

datatype panic = UnlockBlocksInputsMismatchPanic nat nat

section \<open>The marshalutil library\<close>

text \<open>
  \<^verbatim>\<open>github.com/iotaledger/hive.go/marshalutil\<close> is an external library. A \<open>MarshalUtil\<close> is
  a byte buffer with a read offset and a write offset. Fixed-width integers are little
  endian. A read that asks for more bytes than remain returns an error and leaves the
  offset where it was. A write past the end of the buffer grows it, and \<open>Bytes()\<close> is the
  buffer up to the write offset.
\<close>

record MarshalUtil =
  bytes :: "byte list"
  readOffset :: nat
  writeOffset :: nat

definition New_bytes :: "byte list \<Rightarrow> MarshalUtil" where
  "New_bytes bs = \<lparr>bytes = bs, readOffset = 0, writeOffset = 0\<rparr>"

definition New_size :: "nat \<Rightarrow> MarshalUtil" where
  "New_size n = \<lparr>bytes = replicate n 0, readOffset = 0, writeOffset = 0\<rparr>"

definition New_default :: MarshalUtil where
  "New_default = New_size 1024"

definition ReadBytes :: "MarshalUtil \<Rightarrow> nat \<Rightarrow> (error + byte list) \<times> MarshalUtil" where
  "ReadBytes mu n =
     (if readOffset mu + n > length (bytes mu) then (Inl ReadTooManyBytes, mu)
      else (Inr (take n (drop (readOffset mu) (bytes mu))),
            mu\<lparr>readOffset := readOffset mu + n\<rparr>))"

definition ReadByte :: "MarshalUtil \<Rightarrow> (error + byte) \<times> MarshalUtil" where
  "ReadByte mu =
     (if readOffset mu + 1 > length (bytes mu) then (Inl ReadTooManyBytes, mu)
      else (Inr (bytes mu ! readOffset mu), mu\<lparr>readOffset := readOffset mu + 1\<rparr>))"

definition LittleEndian_Uint32 :: "byte \<Rightarrow> byte \<Rightarrow> byte \<Rightarrow> byte \<Rightarrow> uint32" where
  "LittleEndian_Uint32 b0 b1 b2 b3 =
     ucast b0 OR push_bit 8 (ucast b1) OR push_bit 16 (ucast b2) OR push_bit 24 (ucast b3)"

definition ReadUint32 :: "MarshalUtil \<Rightarrow> (error + uint32) \<times> MarshalUtil" where
  "ReadUint32 mu =
     (if readOffset mu + 4 > length (bytes mu) then (Inl ReadTooManyBytes, mu)
      else (Inr (LittleEndian_Uint32 (bytes mu ! readOffset mu) (bytes mu ! (readOffset mu + 1))
                   (bytes mu ! (readOffset mu + 2)) (bytes mu ! (readOffset mu + 3))),
            mu\<lparr>readOffset := readOffset mu + 4\<rparr>))"

definition LittleEndian_PutUint16 :: "uint16 \<Rightarrow> byte list" where
  "LittleEndian_PutUint16 w = [ucast w, ucast (drop_bit 8 w)]"

definition LittleEndian_PutUint32 :: "uint32 \<Rightarrow> byte list" where
  "LittleEndian_PutUint32 w =
     [ucast w, ucast (drop_bit 8 w), ucast (drop_bit 16 w), ucast (drop_bit 24 w)]"

definition WriteBytes :: "MarshalUtil \<Rightarrow> byte list \<Rightarrow> MarshalUtil" where
  "WriteBytes mu bs =
     (let writeEndOffset = writeOffset mu + length bs;
          buf = (if writeEndOffset > length (bytes mu)
                 then bytes mu @ replicate (writeEndOffset - length (bytes mu)) 0
                 else bytes mu)
      in mu\<lparr>bytes := take (writeOffset mu) buf @ bs @ drop writeEndOffset buf,
            writeOffset := writeEndOffset\<rparr>)"

definition WriteUint16 :: "MarshalUtil \<Rightarrow> uint16 \<Rightarrow> MarshalUtil" where
  "WriteUint16 mu w = WriteBytes mu (LittleEndian_PutUint16 w)"

definition WriteUint32 :: "MarshalUtil \<Rightarrow> uint32 \<Rightarrow> MarshalUtil" where
  "WriteUint32 mu w = WriteBytes mu (LittleEndian_PutUint32 w)"

definition MarshalUtil_Bytes :: "MarshalUtil \<Rightarrow> byte list" where
  "MarshalUtil_Bytes mu = take (writeOffset mu) (bytes mu)"

section \<open>TransactionID\<close>

definition TransactionIDLength :: nat where
  "TransactionIDLength = 32"

text \<open>\<^verbatim>\<open>type TransactionID [TransactionIDLength]byte\<close>: an array of exactly 32 bytes.\<close>

typedef TransactionID = "{bs :: byte list. length bs = 32}"
  by (rule exI [of _ "replicate 32 0"]) simp

text \<open>\<^verbatim>\<open>i[:]\<close>, the slice over the whole array.\<close>

definition TransactionID_Bytes :: "TransactionID \<Rightarrow> byte list" where
  "TransactionID_Bytes i = Rep_TransactionID i"

text \<open>The zero value of the array type, which is also \<^verbatim>\<open>GenesisTransactionID\<close>.\<close>

definition GenesisTransactionID :: TransactionID where
  "GenesisTransactionID = Abs_TransactionID (replicate 32 0)"

text \<open>
  \<^verbatim>\<open>copy(transactionID[:], src)\<close> into a zero array: the first 32 bytes of \<open>src\<close>, and
  zeros where \<open>src\<close> is shorter.
\<close>

definition copy_TransactionID :: "byte list \<Rightarrow> TransactionID" where
  "copy_TransactionID src = Abs_TransactionID (take 32 src @ replicate (32 - length src) 0)"

definition TransactionIDFromMarshalUtil ::
  "MarshalUtil \<Rightarrow> (TransactionID \<times> error option) \<times> MarshalUtil" where
  "TransactionIDFromMarshalUtil marshalUtil =
     (case ReadBytes marshalUtil TransactionIDLength of
        (Inl err, mu) \<Rightarrow> ((GenesisTransactionID, Some (TransactionIDParseFailed err)), mu)
      | (Inr transactionIDBytes, mu) \<Rightarrow> ((copy_TransactionID transactionIDBytes, None), mu))"

text \<open>The result is (transactionID, consumedBytes, err), the three named results.\<close>

definition TransactionIDFromBytes :: "byte list \<Rightarrow> TransactionID \<times> int \<times> error option" where
  "TransactionIDFromBytes bs =
     (case TransactionIDFromMarshalUtil (New_bytes bs) of
        ((transactionID, Some err), mu) \<Rightarrow>
          (transactionID, 0, Some (TransactionIDFromMarshalUtilFailed err))
      | ((transactionID, None), mu) \<Rightarrow> (transactionID, int (readOffset mu), None))"

text \<open>
  \<^verbatim>\<open>github.com/mr-tron/base58\<close> is an external library. \<open>base58.Encode\<close> uses the Bitcoin
  alphabet: one \<open>1\<close> for every leading zero byte, then the digits of the input read as a
  big-endian number, most significant first.
\<close>

definition base58_alphabet :: string where
  "base58_alphabet = ''123456789ABCDEFGHJKLMNPQRSTUVWXYZabcdefghijkmnopqrstuvwxyz''"

definition bigEndian_nat :: "byte list \<Rightarrow> nat" where
  "bigEndian_nat bs = foldl (\<lambda>acc b. acc * 256 + unat b) 0 bs"

function base58_digits :: "nat \<Rightarrow> string" where
  "base58_digits n =
     (if n = 0 then [] else base58_digits (n div 58) @ [base58_alphabet ! (n mod 58)])"
  by pat_completeness auto
termination
  by (relation "measure (\<lambda>n. n)") auto

definition base58_Encode :: "byte list \<Rightarrow> string" where
  "base58_Encode bs =
     replicate (length (takeWhile (\<lambda>b. b = 0) bs)) CHR ''1'' @ base58_digits (bigEndian_nat bs)"

definition TransactionID_Base58 :: "TransactionID \<Rightarrow> string" where
  "TransactionID_Base58 i = base58_Encode (TransactionID_Bytes i)"

definition TransactionID_String :: "TransactionID \<Rightarrow> string" where
  "TransactionID_String i = ''TransactionID('' @ TransactionID_Base58 i @ '')''"

section \<open>The payload type\<close>

text \<open>
  Modelled from the spec: the package \<^verbatim>\<open>packages/tangle/payload\<close> (\<open>payload.Type\<close>, its
  \<open>Bytes\<close> and \<open>TypeFromMarshalUtil\<close>) is not among the sources. The wire format of the
  spec gives the type tag 4 bytes, so a type is a \<open>uint32\<close>, written and read through the
  MarshalUtil. The number of the Transaction type, 1, is the argument of
  \<^verbatim>\<open>payload.NewType\<close> in \<^verbatim>\<open>init\<close>.
\<close>

type_synonym payload_Type = uint32

definition TransactionType :: payload_Type where
  "TransactionType = 1"

definition Uint32Size :: nat where
  "Uint32Size = 4"

definition UINT16_SIZE :: nat where
  "UINT16_SIZE = 2"

definition Type_Bytes :: "payload_Type \<Rightarrow> byte list" where
  "Type_Bytes t = MarshalUtil_Bytes (WriteUint32 (New_size Uint32Size) t)"

definition TypeFromMarshalUtil ::
  "MarshalUtil \<Rightarrow> (payload_Type \<times> error option) \<times> MarshalUtil" where
  "TypeFromMarshalUtil marshalUtil =
     (case ReadUint32 marshalUtil of
        (Inl err, mu) \<Rightarrow> ((0, Some (TypeParseFailed err)), mu)
      | (Inr typeUint32, mu) \<Rightarrow> ((typeUint32, None), mu))"

section \<open>TransactionEssenceVersion\<close>

text \<open>\<^verbatim>\<open>type TransactionEssenceVersion uint8\<close>.\<close>

type_synonym TransactionEssenceVersion = byte

text \<open>
  Both error returns leave the named result \<open>version\<close> at its zero value. The second one
  wraps \<open>err\<close>, which is nil there.
\<close>

definition TransactionEssenceVersionFromMarshalUtil ::
  "MarshalUtil \<Rightarrow> (TransactionEssenceVersion \<times> error option) \<times> MarshalUtil" where
  "TransactionEssenceVersionFromMarshalUtil marshalUtil =
     (case ReadByte marshalUtil of
        (Inl err, mu) \<Rightarrow> ((0, Some (VersionByteParseFailed (Some err))), mu)
      | (Inr readByte, mu) \<Rightarrow>
          if readByte \<noteq> 0 then ((0, Some (VersionByteParseFailed None)), mu)
          else ((readByte, None), mu))"

definition TransactionEssenceVersionFromBytes ::
  "byte list \<Rightarrow> TransactionEssenceVersion \<times> int \<times> error option" where
  "TransactionEssenceVersionFromBytes bs =
     (case TransactionEssenceVersionFromMarshalUtil (New_bytes bs) of
        ((version, Some err), mu) \<Rightarrow> (version, 0, Some (VersionFromMarshalUtilFailed err))
      | ((version, None), mu) \<Rightarrow> (version, int (readOffset mu), None))"

definition TransactionEssenceVersion_Bytes :: "TransactionEssenceVersion \<Rightarrow> byte list" where
  "TransactionEssenceVersion_Bytes v = [v]"

definition TransactionEssenceVersion_Compare ::
  "TransactionEssenceVersion \<Rightarrow> TransactionEssenceVersion \<Rightarrow> int" where
  "TransactionEssenceVersion_Compare v other =
     (if v < other then - 1 else if v > other then 1 else 0)"

section \<open>TransactionEssence and Transaction\<close>

text \<open>
  \<open>Inputs\<close>, \<open>Outputs\<close> and \<open>UnlockBlocks\<close> are slices, and the nested payload is an interface
  value that may be nil. Their element types are declared outside
  \<^verbatim>\<open>transaction.go\<close>, so they are type parameters here: \<open>'i\<close>, \<open>'o\<close>, \<open>'u\<close> and \<open>'p\<close>.
\<close>

record ('i, 'o, 'p) TransactionEssence =
  version :: TransactionEssenceVersion
  inputs :: "'i list"
  outputs :: "'o list"
  payload :: "'p option"

text \<open>A \<^verbatim>\<open>*Transaction\<close> is a \<open>Transaction option\<close>, \<open>None\<close> the nil pointer.\<close>

record ('i, 'o, 'p, 'u) Transaction =
  essence :: "('i, 'o, 'p) TransactionEssence"
  unlockBlocks :: "'u list"

text \<open>
  The serialisers and parsers of \<open>Inputs\<close>, \<open>Outputs\<close>, \<open>UnlockBlocks\<close> and of the nested
  payload are called by \<^verbatim>\<open>transaction.go\<close> and defined outside it. They are parameters
  of the model, collected in one record. A parser returns its value, its error and the
  MarshalUtil it leaves behind.
\<close>

record ('i, 'o, 'p, 'u) codec =
  Inputs_Bytes :: "'i list \<Rightarrow> byte list"
  Outputs_Bytes :: "'o list \<Rightarrow> byte list"
  Payload_Bytes :: "'p \<Rightarrow> byte list"
  UnlockBlocks_Bytes :: "'u list \<Rightarrow> byte list"
  InputsFromMarshalUtil :: "MarshalUtil \<Rightarrow> ('i list \<times> error option) \<times> MarshalUtil"
  OutputsFromMarshalUtil :: "MarshalUtil \<Rightarrow> ('o list \<times> error option) \<times> MarshalUtil"
  Payload_FromMarshalUtil :: "MarshalUtil \<Rightarrow> ('p option \<times> error option) \<times> MarshalUtil"
  UnlockBlocksFromMarshalUtil :: "MarshalUtil \<Rightarrow> ('u list \<times> error option) \<times> MarshalUtil"

definition NewTransactionEssence ::
  "TransactionEssenceVersion \<Rightarrow> 'i list \<Rightarrow> 'o list \<Rightarrow> ('i, 'o, 'p) TransactionEssence" where
  "NewTransactionEssence v ins outs =
     \<lparr>version = v, inputs = ins, outputs = outs, payload = None\<rparr>"

text \<open>
  The Go function fills the fields of a fresh essence one after the other and returns the
  essence together with the error, so an error comes with the fields parsed so far.
\<close>

definition TransactionEssenceFromMarshalUtil ::
  "('i, 'o, 'p, 'u) codec \<Rightarrow> MarshalUtil \<Rightarrow>
   (('i, 'o, 'p) TransactionEssence \<times> error option) \<times> MarshalUtil" where
  "TransactionEssenceFromMarshalUtil c marshalUtil =
     (case TransactionEssenceVersionFromMarshalUtil marshalUtil of
        ((v, Some err), mu1) \<Rightarrow>
          ((\<lparr>version = v, inputs = [], outputs = [], payload = None\<rparr>,
            Some (VersionParseFailed err)), mu1)
      | ((v, None), mu1) \<Rightarrow>
     (case InputsFromMarshalUtil c mu1 of
        ((ins, Some err), mu2) \<Rightarrow>
          ((\<lparr>version = v, inputs = ins, outputs = [], payload = None\<rparr>,
            Some (InputsParseFailed err)), mu2)
      | ((ins, None), mu2) \<Rightarrow>
     (case OutputsFromMarshalUtil c mu2 of
        ((outs, Some err), mu3) \<Rightarrow>
          ((\<lparr>version = v, inputs = ins, outputs = outs, payload = None\<rparr>,
            Some (OutputsParseFailed err)), mu3)
      | ((outs, None), mu3) \<Rightarrow>
     (case Payload_FromMarshalUtil c mu3 of
        ((p, Some err), mu4) \<Rightarrow>
          ((\<lparr>version = v, inputs = ins, outputs = outs, payload = p\<rparr>,
            Some (PayloadParseFailed err)), mu4)
      | ((p, None), mu4) \<Rightarrow>
          ((\<lparr>version = v, inputs = ins, outputs = outs, payload = p\<rparr>, None), mu4)))))"

definition TransactionEssence_Bytes ::
  "('i, 'o, 'p, 'u) codec \<Rightarrow> ('i, 'o, 'p) TransactionEssence \<Rightarrow> byte list" where
  "TransactionEssence_Bytes c t =
     (let marshalUtil =
            WriteBytes
              (WriteBytes
                 (WriteBytes New_default (TransactionEssenceVersion_Bytes (version t)))
                 (Inputs_Bytes c (inputs t)))
              (Outputs_Bytes c (outputs t))
      in MarshalUtil_Bytes
           (case payload t of
              Some p \<Rightarrow> WriteBytes marshalUtil (Payload_Bytes c p)
            | None \<Rightarrow> WriteUint32 marshalUtil 0))"

text \<open>\<^verbatim>\<open>NewTransaction\<close> panics or returns the new Transaction.\<close>

definition NewTransaction ::
  "('i, 'o, 'p) TransactionEssence \<Rightarrow> 'u list \<Rightarrow> panic + ('i, 'o, 'p, 'u) Transaction" where
  "NewTransaction ess ubs =
     (if length ubs \<noteq> length (inputs ess)
      then Inl (UnlockBlocksInputsMismatchPanic (length ubs) (length (inputs ess)))
      else Inr \<lparr>essence = ess, unlockBlocks = ubs\<rparr>)"

text \<open>
  The result is ((transaction, err), marshalUtil): the two named results and the
  MarshalUtil after the reads. \<open>transaction\<close> stays nil up to the check of the payload
  type. From there on it is the object under construction, and every later
  \<^verbatim>\<open>return\<close> hands it out next to the error. \<open>int(payloadSize)\<close> is taken on a
  64-bit platform, where it is the value of the \<open>uint32\<close>.
\<close>

definition TransactionFromMarshalUtil ::
  "('i, 'o, 'p, 'u) codec \<Rightarrow> MarshalUtil \<Rightarrow>
   (('i, 'o, 'p, 'u) Transaction option \<times> error option) \<times> MarshalUtil" where
  "TransactionFromMarshalUtil c marshalUtil =
     (let readStartOffset = readOffset marshalUtil in
      case ReadUint32 marshalUtil of
        (Inl err, mu1) \<Rightarrow> ((None, Some (PayloadSizeParseFailed err)), mu1)
      | (Inr payloadSize, mu1) \<Rightarrow>
     (case TypeFromMarshalUtil mu1 of
        ((payloadType, Some err), mu2) \<Rightarrow> ((None, Some (PayloadTypeParseFailed err)), mu2)
      | ((payloadType, None), mu2) \<Rightarrow>
      if payloadType \<noteq> TransactionType
      then ((None, Some (PayloadTypeMismatch payloadType TransactionType)), mu2)
      else
     (case TransactionEssenceFromMarshalUtil c mu2 of
        ((ess, Some err), mu3) \<Rightarrow>
          ((Some \<lparr>essence = ess, unlockBlocks = []\<rparr>, Some (EssenceParseFailed err)), mu3)
      | ((ess, None), mu3) \<Rightarrow>
     (case UnlockBlocksFromMarshalUtil c mu3 of
        ((ubs, Some err), mu4) \<Rightarrow>
          ((Some \<lparr>essence = ess, unlockBlocks = ubs\<rparr>, Some (UnlockBlocksParseFailed err)), mu4)
      | ((ubs, None), mu4) \<Rightarrow>
          (let parsedBytes = int (readOffset mu4) - int readStartOffset in
           if parsedBytes \<noteq> int (unat payloadSize) + 4
           then ((Some \<lparr>essence = ess, unlockBlocks = ubs\<rparr>,
                  Some (ParsedBytesMismatch parsedBytes payloadSize)), mu4)
           else if length ubs \<noteq> length (inputs ess)
           then ((Some \<lparr>essence = ess, unlockBlocks = ubs\<rparr>,
                  Some (UnlockBlocksInputsMismatch (length ubs) (length (inputs ess)))), mu4)
           else ((Some \<lparr>essence = ess, unlockBlocks = ubs\<rparr>, None), mu4))))))"

definition TransactionFromBytes ::
  "('i, 'o, 'p, 'u) codec \<Rightarrow> byte list \<Rightarrow>
   ('i, 'o, 'p, 'u) Transaction option \<times> int \<times> error option" where
  "TransactionFromBytes c bs =
     (case TransactionFromMarshalUtil c (New_bytes bs) of
        ((transaction, Some err), mu) \<Rightarrow>
          (transaction, 0, Some (TransactionFromMarshalUtilFailed err))
      | ((transaction, None), mu) \<Rightarrow> (transaction, int (readOffset mu), None))"

text \<open>
  \<^verbatim>\<open>uint16(payloadBytesLength)\<close> keeps the low 16 bits of the length, which is what
  \<open>of_nat\<close> into a 16-bit word does.
\<close>

definition Transaction_Bytes ::
  "('i, 'o, 'p, 'u) codec \<Rightarrow> ('i, 'o, 'p, 'u) Transaction option \<Rightarrow> byte list" where
  "Transaction_Bytes c t =
     (case t of
        None \<Rightarrow> MarshalUtil_Bytes (WriteUint16 (New_size UINT16_SIZE) 0)
      | Some tx \<Rightarrow>
          (let payloadBytes =
                 Type_Bytes TransactionType @ TransactionEssence_Bytes c (essence tx) @
                 UnlockBlocks_Bytes c (unlockBlocks tx);
               payloadBytesLength = length payloadBytes
           in MarshalUtil_Bytes
                (WriteBytes
                   (WriteUint16 (New_size (UINT16_SIZE + payloadBytesLength))
                      (of_nat payloadBytesLength))
                   payloadBytes)))"

section \<open>An instance of the codecs\<close>

text \<open>
  To run the parser on explicit bytes the parameters need values. In this instance an
  input, an output and an unlock block are one byte each, a list is a count byte followed
  by its elements, and the nested payload is a \<open>uint32\<close> length followed by that many
  bytes, length 0 standing for no payload.
\<close>

definition sample_list_Bytes :: "byte list \<Rightarrow> byte list" where
  "sample_list_Bytes xs = of_nat (length xs) # xs"

definition sample_listFromMarshalUtil ::
  "MarshalUtil \<Rightarrow> (byte list \<times> error option) \<times> MarshalUtil" where
  "sample_listFromMarshalUtil marshalUtil =
     (case ReadByte marshalUtil of
        (Inl err, mu1) \<Rightarrow> (([], Some err), mu1)
      | (Inr n, mu1) \<Rightarrow>
          (case ReadBytes mu1 (unat n) of
             (Inl err, mu2) \<Rightarrow> (([], Some err), mu2)
           | (Inr xs, mu2) \<Rightarrow> ((xs, None), mu2)))"

definition sample_payload_Bytes :: "byte list \<Rightarrow> byte list" where
  "sample_payload_Bytes p = LittleEndian_PutUint32 (of_nat (length p)) @ p"

definition sample_payloadFromMarshalUtil ::
  "MarshalUtil \<Rightarrow> (byte list option \<times> error option) \<times> MarshalUtil" where
  "sample_payloadFromMarshalUtil marshalUtil =
     (case ReadUint32 marshalUtil of
        (Inl err, mu1) \<Rightarrow> ((None, Some err), mu1)
      | (Inr n, mu1) \<Rightarrow>
          if n = 0 then ((None, None), mu1)
          else (case ReadBytes mu1 (unat n) of
                  (Inl err, mu2) \<Rightarrow> ((None, Some err), mu2)
                | (Inr p, mu2) \<Rightarrow> ((Some p, None), mu2)))"

definition sampleCodec :: "(byte, byte, byte list, byte) codec" where
  "sampleCodec =
     \<lparr>Inputs_Bytes = sample_list_Bytes,
      Outputs_Bytes = sample_list_Bytes,
      Payload_Bytes = sample_payload_Bytes,
      UnlockBlocks_Bytes = sample_list_Bytes,
      InputsFromMarshalUtil = sample_listFromMarshalUtil,
      OutputsFromMarshalUtil = sample_listFromMarshalUtil,
      Payload_FromMarshalUtil = sample_payloadFromMarshalUtil,
      UnlockBlocksFromMarshalUtil = sample_listFromMarshalUtil\<rparr>"

section \<open>The object storage options of the marker package\<close>

text \<open>
  \<^verbatim>\<open>time.Duration\<close> is a count of nanoseconds, with the constants of Go's \<open>time\<close>
  package. \<open>objectstorage.CacheTime\<close> is the one option the file uses.
\<close>

type_synonym Duration = int

definition Nanosecond :: Duration where
  "Nanosecond = 1"

definition Microsecond :: Duration where
  "Microsecond = 1000 * Nanosecond"

definition Millisecond :: Duration where
  "Millisecond = 1000 * Microsecond"

definition Second :: Duration where
  "Second = 1000 * Millisecond"

datatype objectstorage_Option = CacheTime Duration

definition PrefixSequence :: byte where
  "PrefixSequence = 0"

definition PrefixSequenceAliasMapping :: byte where
  "PrefixSequenceAliasMapping = 1"

definition objectStorageOptions :: "objectstorage_Option list" where
  "objectStorageOptions = [CacheTime (60 * Second)]"

section \<open>Facts about the library model\<close>

lemma writeOffset_WriteBytes: "writeOffset (WriteBytes mu bs) = writeOffset mu + length bs"
  by (simp add: WriteBytes_def Let_def)

lemma length_bytes_WriteBytes:
  "writeOffset mu \<le> length (bytes mu) \<Longrightarrow>
   writeOffset (WriteBytes mu bs) \<le> length (bytes (WriteBytes mu bs))"
  by (simp add: WriteBytes_def Let_def)

lemma MarshalUtil_Bytes_WriteBytes:
  "writeOffset mu \<le> length (bytes mu) \<Longrightarrow>
   MarshalUtil_Bytes (WriteBytes mu bs) = MarshalUtil_Bytes mu @ bs"
  by (simp add: WriteBytes_def MarshalUtil_Bytes_def Let_def)

lemma MarshalUtil_Bytes_New_size: "MarshalUtil_Bytes (New_size n) = []"
  by (simp add: MarshalUtil_Bytes_def New_size_def)

lemma writeOffset_New_size: "writeOffset (New_size n) = 0"
  by (simp add: New_size_def)

lemma Type_Bytes_TransactionType: "Type_Bytes TransactionType = [1, 0, 0, 0]"
  by (simp add: Type_Bytes_def TransactionType_def WriteUint32_def MarshalUtil_Bytes_WriteBytes
      writeOffset_New_size MarshalUtil_Bytes_New_size LittleEndian_PutUint32_def)

lemma Transaction_Bytes_None: "Transaction_Bytes c None = [0, 0]"
  by (simp add: Transaction_Bytes_def WriteUint16_def MarshalUtil_Bytes_WriteBytes
      writeOffset_New_size MarshalUtil_Bytes_New_size LittleEndian_PutUint16_def)

lemma Transaction_Bytes_Some:
  "Transaction_Bytes c (Some tx) =
     LittleEndian_PutUint16
       (of_nat (4 + length (TransactionEssence_Bytes c (essence tx)) +
                length (UnlockBlocks_Bytes c (unlockBlocks tx)))) @
     [1, 0, 0, 0] @ TransactionEssence_Bytes c (essence tx) @
     UnlockBlocks_Bytes c (unlockBlocks tx)"
  by (simp add: Transaction_Bytes_def WriteUint16_def MarshalUtil_Bytes_WriteBytes
      writeOffset_New_size MarshalUtil_Bytes_New_size Let_def Type_Bytes_TransactionType
      length_bytes_WriteBytes ac_simps)

lemma TransactionEssence_Bytes_eq:
  "TransactionEssence_Bytes c t =
     [version t] @ Inputs_Bytes c (inputs t) @ Outputs_Bytes c (outputs t) @
     (case payload t of Some p \<Rightarrow> Payload_Bytes c p | None \<Rightarrow> [0, 0, 0, 0])"
  by (simp add: TransactionEssence_Bytes_def Let_def WriteUint32_def MarshalUtil_Bytes_WriteBytes
      length_bytes_WriteBytes New_default_def writeOffset_New_size MarshalUtil_Bytes_New_size
      TransactionEssenceVersion_Bytes_def LittleEndian_PutUint32_def split: option.splits)

lemma LittleEndian_Uint32_even: "LittleEndian_Uint32 0 b1 b2 b3 \<noteq> 1"
proof
  assume "LittleEndian_Uint32 0 b1 b2 b3 = 1"
  then have "odd (LittleEndian_Uint32 0 b1 b2 b3)" by simp
  then show False by (simp add: LittleEndian_Uint32_def even_or_iff)
qed

lemma TransactionID_Bytes_length: "length (TransactionID_Bytes i) = 32"
  using Rep_TransactionID [of i] by (simp add: TransactionID_Bytes_def)

lemma copy_TransactionID_Bytes: "copy_TransactionID (TransactionID_Bytes i) = i"
  using Rep_TransactionID [of i]
  by (simp add: copy_TransactionID_def TransactionID_Bytes_def Rep_TransactionID_inverse)

lemma TransactionID_Bytes_copy:
  "TransactionID_Bytes (copy_TransactionID src) = take 32 src @ replicate (32 - length src) 0"
  by (simp add: copy_TransactionID_def TransactionID_Bytes_def Abs_TransactionID_inverse)

lemma TransactionIDFromBytes_Bytes:
  "TransactionIDFromBytes (TransactionID_Bytes i) = (i, 32, None)"
  by (simp add: TransactionIDFromBytes_def TransactionIDFromMarshalUtil_def ReadBytes_def
      New_bytes_def TransactionIDLength_def TransactionID_Bytes_length copy_TransactionID_Bytes)

lemma TransactionIDFromBytes_short:
  "length bs < 32 \<Longrightarrow>
   TransactionIDFromBytes bs =
     (GenesisTransactionID, 0,
      Some (TransactionIDFromMarshalUtilFailed (TransactionIDParseFailed ReadTooManyBytes)))"
  by (simp add: TransactionIDFromBytes_def TransactionIDFromMarshalUtil_def ReadBytes_def
      New_bytes_def TransactionIDLength_def)

lemma ReadUint32_offset:
  "ReadUint32 mu = (Inr w, mu') \<Longrightarrow> readOffset mu' = readOffset mu + 4 \<and> bytes mu' = bytes mu"
  by (auto simp: ReadUint32_def split: if_splits)

lemma TypeFromMarshalUtil_offset:
  "TypeFromMarshalUtil mu = ((t, None), mu') \<Longrightarrow>
   readOffset mu' = readOffset mu + 4 \<and> bytes mu' = bytes mu"
  by (auto simp: TypeFromMarshalUtil_def ReadUint32_def split: if_splits)

text \<open>
  What the parser does with the output of \<open>Transaction_Bytes\<close>, whose first six bytes are
  a 2-byte length and the 4-byte type tag 1: it reads the length and half of the tag as
  the payload size, and the other half of the tag with the next two bytes as the type.
\<close>

lemma TransactionFromMarshalUtil_uint16_prefix:
  "TransactionFromMarshalUtil c (New_bytes (w0 # w1 # 1 # 0 # 0 # 0 # rest)) =
     (if length rest < 2
      then ((None, Some (PayloadTypeParseFailed (TypeParseFailed ReadTooManyBytes))),
            \<lparr>bytes = w0 # w1 # 1 # 0 # 0 # 0 # rest, readOffset = 4, writeOffset = 0\<rparr>)
      else ((None, Some (PayloadTypeMismatch (LittleEndian_Uint32 0 0 (rest ! 0) (rest ! 1))
                           TransactionType)),
            \<lparr>bytes = w0 # w1 # 1 # 0 # 0 # 0 # rest, readOffset = 8, writeOffset = 0\<rparr>))"
  using LittleEndian_Uint32_even [of 0 "rest ! 0" "rest ! 1"]
  by (simp add: TransactionFromMarshalUtil_def New_bytes_def ReadUint32_def
      TypeFromMarshalUtil_def TransactionType_def)

lemmas sample_parse_defs =
  TransactionFromMarshalUtil_def New_bytes_def ReadUint32_def TypeFromMarshalUtil_def
  LittleEndian_Uint32_def TransactionType_def TransactionEssenceFromMarshalUtil_def
  TransactionEssenceVersionFromMarshalUtil_def ReadByte_def ReadBytes_def sampleCodec_def
  sample_listFromMarshalUtil_def sample_payloadFromMarshalUtil_def

lemma bigEndian_nat_zeros: "bigEndian_nat (replicate n 0) = 0"
proof -
  have "foldl (\<lambda>acc b. acc * 256 + unat b) a (replicate n (0 :: byte)) = a * 256 ^ n" for a
    by (induction n arbitrary: a) simp_all
  then show ?thesis by (simp add: bigEndian_nat_def)
qed

lemma base58_Encode_zeros: "base58_Encode (replicate n 0) = replicate n CHR ''1''"
  by (simp add: base58_Encode_def bigEndian_nat_zeros)

lemma TransactionID_String_Genesis:
  "TransactionID_String GenesisTransactionID =
     ''TransactionID('' @ replicate 32 CHR ''1'' @ '')''"
  by (simp add: TransactionID_String_def TransactionID_Base58_def TransactionID_Bytes_def
      GenesisTransactionID_def Abs_TransactionID_inverse base58_Encode_zeros)

text \<open>
  A transaction with one input and one unlock block, serialised and parsed back with the
  sample codec: the 2-byte length 14, the type tag, the essence, the unlock blocks. The
  parser takes the type to be \<open>0x01000000\<close>.
\<close>

lemma sample_Transaction_Bytes:
  "Transaction_Bytes sampleCodec
     (Some \<lparr>essence = NewTransactionEssence 0 [7] [], unlockBlocks = [9]\<rparr>) =
   [14, 0, 1, 0, 0, 0, 0, 1, 7, 0, 0, 0, 0, 0, 1, 9]"
  by (simp add: Transaction_Bytes_Some TransactionEssence_Bytes_eq sampleCodec_def
      sample_list_Bytes_def NewTransactionEssence_def LittleEndian_PutUint16_def)

lemma sample_Transaction_Bytes_parse:
  "fst (TransactionFromMarshalUtil sampleCodec
          (New_bytes [14, 0, 1, 0, 0, 0, 0, 1, 7, 0, 0, 0, 0, 0, 1, 9])) =
     (None, Some (PayloadTypeMismatch 16777216 1))"
  by (simp add: TransactionFromMarshalUtil_uint16_prefix LittleEndian_Uint32_def
      TransactionType_def)

section \<open>The claims\<close>

text \<open>
  C1. The claim: for every valid Transaction T, parsing the bytes of \<open>T.Bytes()\<close> with
  \<open>TransactionFromMarshalUtil\<close> succeeds and yields a transaction with the same bytes.
  The code does not do this. \<open>Bytes\<close> writes the payload length with \<open>WriteUint16\<close>,
  the parser reads it with \<open>ReadUint32\<close>, so the parser is two bytes out of step from the
  start. For every Transaction pointer, nil or not, and whatever the serialisers of
  inputs, outputs, payload and unlock blocks are, the parser returns a nil transaction
  and a non-nil error.
\<close>

theorem Transaction_Bytes_not_parsed:
  "fst (fst (TransactionFromMarshalUtil c (New_bytes (Transaction_Bytes c t)))) = None \<and>
   snd (fst (TransactionFromMarshalUtil c (New_bytes (Transaction_Bytes c t)))) \<noteq> None"
proof (cases t)
  case None
  then show ?thesis
    by (simp add: Transaction_Bytes_None TransactionFromMarshalUtil_def New_bytes_def
        ReadUint32_def)
next
  case (Some tx)
  then show ?thesis
    by (simp add: Transaction_Bytes_Some LittleEndian_PutUint16_def
        TransactionFromMarshalUtil_uint16_prefix)
qed

text \<open>
  C3. The claim: a nil Transaction serialises to the two zero bytes of a \<open>uint16\<close>, and
  parsing these two bytes yields the absence marker, not an error. \<open>Bytes\<close> has a branch
  for the nil Transaction and writes the two zero bytes there, so the serialiser encodes
  absence. The parser does not read it back. On the two bytes it returns a nil
  transaction together with the error of the payload size and reads nothing. More than
  that, on no input and with no codec does it return a nil transaction with a nil error:
  whenever the error is nil the transaction is an object, so no encoding of absence, of
  any width, parses to the absence marker.
\<close>

theorem nil_Transaction_sentinel:
  "Transaction_Bytes c None = [0, 0] \<and>
   TransactionFromMarshalUtil c (New_bytes (Transaction_Bytes c None)) =
     ((None, Some (PayloadSizeParseFailed ReadTooManyBytes)), New_bytes [0, 0]) \<and>
   fst (TransactionFromMarshalUtil c' mu) \<noteq> (None, None)"
proof -
  have sentinel: "Transaction_Bytes c None = [0, 0]"
    by (rule Transaction_Bytes_None)
  have parsed: "TransactionFromMarshalUtil c (New_bytes [0, 0]) =
      ((None, Some (PayloadSizeParseFailed ReadTooManyBytes)), New_bytes [0, 0])"
    by (simp add: TransactionFromMarshalUtil_def New_bytes_def ReadUint32_def)
  have no_absence: "fst (TransactionFromMarshalUtil c' mu) \<noteq> (None, None)"
    by (simp add: TransactionFromMarshalUtil_def Let_def
        split: prod.splits sum.splits option.splits)
  from sentinel parsed no_absence show ?thesis by simp
qed

text \<open>
  C4. The claim: \<open>NewTransactionEssence\<close> with a version other than 0 fails with
  InvalidVersion. The constructor has no check and no way to fail: with version 1 it
  returns an essence of version 1, a version byte the parser rejects. As amended:
  \<open>NewTransactionEssence\<close> returns, for every version, an essence with that version, the
  given inputs and outputs and no payload.
\<close>

theorem NewTransactionEssence_any_version:
  "NewTransactionEssence v ins outs =
     \<lparr>version = v, inputs = ins, outputs = outs, payload = None\<rparr>"
  by (simp add: NewTransactionEssence_def)

text \<open>
  C4, the counterexample: with version 1 the constructor returns an essence of version
  1, and 1 is a version byte the parser rejects.
\<close>

theorem NewTransactionEssence_version_1:
  "NewTransactionEssence 1 [7 :: byte] [8 :: byte] =
     (\<lparr>version = 1, inputs = [7], outputs = [8], payload = None\<rparr>
        :: (byte, byte, byte list) TransactionEssence) \<and>
   snd (fst (TransactionEssenceVersionFromMarshalUtil (New_bytes [1]))) =
     Some (VersionByteParseFailed None)"
  by (simp add: NewTransactionEssence_def TransactionEssenceVersionFromMarshalUtil_def
      ReadByte_def New_bytes_def)

text \<open>
  C5. Parsing a TransactionEssenceVersion succeeds exactly when the version byte is 0.
  For every MarshalUtil the error is nil exactly when a byte is left and that byte is 0,
  and on the bytes \<open>b # bs\<close> the function \<open>TransactionEssenceVersionFromBytes\<close> returns
  version 0 with one byte consumed when \<open>b = 0\<close>, and an error for every other \<open>b\<close>.
\<close>

theorem TransactionEssenceVersion_parse_iff_zero:
  "(snd (fst (TransactionEssenceVersionFromMarshalUtil mu)) = None) =
     (readOffset mu < length (bytes mu) \<and> bytes mu ! readOffset mu = 0) \<and>
   TransactionEssenceVersionFromBytes (b # bs) =
     (if b = 0 then (0, 1, None)
      else (0, 0, Some (VersionFromMarshalUtilFailed (VersionByteParseFailed None))))"
  by (simp add: TransactionEssenceVersionFromMarshalUtil_def ReadByte_def
      TransactionEssenceVersionFromBytes_def New_bytes_def)

text \<open>
  C8. For every TransactionID, \<open>String\<close> is the text \<open>TransactionID(\<close>, then the base-58
  encoding of the 32 raw bytes, then \<open>)\<close>.
\<close>

theorem TransactionID_String_base58:
  "TransactionID_String i =
     ''TransactionID('' @ base58_Encode (TransactionID_Bytes i) @ '')'' \<and>
   length (TransactionID_Bytes i) = 32"
  by (simp add: TransactionID_String_def TransactionID_Base58_def TransactionID_Bytes_length)

text \<open>
  C9. The object storage options of the marker package hold one cache time, 60 seconds:
  60 times \<open>time.Second\<close>, which is 60 000 000 000 nanoseconds.
\<close>

theorem objectStorageOptions_CacheTime_60s:
  "objectStorageOptions = [CacheTime (60 * Second)] \<and> Second = 1000000000 \<and>
   objectStorageOptions = [CacheTime 60000000000]"
  by (simp add: objectStorageOptions_def Second_def Millisecond_def Microsecond_def
      Nanosecond_def)

text \<open>
  C10. For every TransactionID \<open>i\<close>, \<open>TransactionIDFromBytes\<close> on the bytes of \<open>i\<close>
  returns \<open>i\<close>, 32 consumed bytes and no error. On every input of fewer than 32 bytes it
  returns an error.
\<close>

theorem TransactionID_Bytes_roundtrip:
  "TransactionIDFromBytes (TransactionID_Bytes i) = (i, 32, None) \<and>
   (\<forall>bs. length bs < 32 \<longrightarrow> snd (snd (TransactionIDFromBytes bs)) \<noteq> None)"
  by (simp add: TransactionIDFromBytes_Bytes TransactionIDFromBytes_short)

theorem TransactionID_Bytes_roundtrip_witness:
  "TransactionIDFromBytes (TransactionID_Bytes GenesisTransactionID) =
     (GenesisTransactionID, 32, None) \<and>
   length [1, 2, 3 :: byte] < 32 \<and> snd (snd (TransactionIDFromBytes [1, 2, 3])) \<noteq> None"
  using TransactionID_Bytes_roundtrip [of GenesisTransactionID] by simp

text \<open>
  C7. When the payload type read from the input is not the Transaction type, the parse
  fails with the type-mismatch error before any byte of the essence or of the unlock
  blocks is read: the transaction is nil, the MarshalUtil is the one left by the read of
  the type, 8 bytes after the start, and the result is the same for every parser of the
  essence parts and unlock blocks.
\<close>

theorem payload_type_mismatch_rejected:
  assumes "ReadUint32 mu = (Inr payloadSize, mu1)"
    and "TypeFromMarshalUtil mu1 = ((payloadType, None), mu2)"
    and "payloadType \<noteq> TransactionType"
  shows "TransactionFromMarshalUtil c mu =
           ((None, Some (PayloadTypeMismatch payloadType TransactionType)), mu2) \<and>
         readOffset mu2 = readOffset mu + 8 \<and> bytes mu2 = bytes mu"
  using assms ReadUint32_offset [OF assms(1)] TypeFromMarshalUtil_offset [OF assms(2)]
  by (simp add: TransactionFromMarshalUtil_def)

theorem payload_type_mismatch_rejected_witness:
  "ReadUint32 (New_bytes [12, 0, 0, 0, 2, 0, 0, 0, 0, 1, 7, 0, 0, 0, 0, 0, 0]) =
     (Inr 12, \<lparr>bytes = [12, 0, 0, 0, 2, 0, 0, 0, 0, 1, 7, 0, 0, 0, 0, 0, 0],
               readOffset = 4, writeOffset = 0\<rparr>) \<and>
   TypeFromMarshalUtil \<lparr>bytes = [12, 0, 0, 0, 2, 0, 0, 0, 0, 1, 7, 0, 0, 0, 0, 0, 0],
                         readOffset = 4, writeOffset = 0\<rparr> =
     ((2, None), \<lparr>bytes = [12, 0, 0, 0, 2, 0, 0, 0, 0, 1, 7, 0, 0, 0, 0, 0, 0],
                  readOffset = 8, writeOffset = 0\<rparr>) \<and>
   2 \<noteq> TransactionType \<and>
   TransactionFromMarshalUtil sampleCodec
       (New_bytes [12, 0, 0, 0, 2, 0, 0, 0, 0, 1, 7, 0, 0, 0, 0, 0, 0]) =
     ((None, Some (PayloadTypeMismatch 2 TransactionType)),
      \<lparr>bytes = [12, 0, 0, 0, 2, 0, 0, 0, 0, 1, 7, 0, 0, 0, 0, 0, 0],
       readOffset = 8, writeOffset = 0\<rparr>)"
proof -
  let ?bs = "[12, 0, 0, 0, 2, 0, 0, 0, 0, 1, 7, 0, 0, 0, 0, 0, 0] :: byte list"
  have h1: "ReadUint32 (New_bytes ?bs) =
              (Inr 12, \<lparr>bytes = ?bs, readOffset = 4, writeOffset = 0\<rparr>)"
    by (simp add: ReadUint32_def New_bytes_def LittleEndian_Uint32_def)
  have h2: "TypeFromMarshalUtil \<lparr>bytes = ?bs, readOffset = 4, writeOffset = 0\<rparr> =
              ((2, None), \<lparr>bytes = ?bs, readOffset = 8, writeOffset = 0\<rparr>)"
    by (simp add: TypeFromMarshalUtil_def ReadUint32_def LittleEndian_Uint32_def)
  have h3: "(2 :: uint32) \<noteq> TransactionType"
    by (simp add: TransactionType_def)
  from payload_type_mismatch_rejected [OF h1 h2 h3, of sampleCodec] h1 h2 h3
  show ?thesis by simp
qed

text \<open>
  The sample bytes: a payload size, the Transaction type, version 0, one input 7, no
  outputs, no payload, no unlock blocks. After the 4 bytes of the size the parser reads
  13 more.
\<close>

lemma sample_ReadUint32:
  "ReadUint32 (New_bytes (n # 0 # 0 # 0 # rest)) =
     (Inr (ucast n), \<lparr>bytes = n # 0 # 0 # 0 # rest, readOffset = 4, writeOffset = 0\<rparr>)"
  by (simp add: ReadUint32_def New_bytes_def LittleEndian_Uint32_def)

lemma sample_TypeFromMarshalUtil:
  "TypeFromMarshalUtil
     \<lparr>bytes = [n, 0, 0, 0, 1, 0, 0, 0, 0, 1, 7, 0, 0, 0, 0, 0, 0],
      readOffset = 4, writeOffset = 0\<rparr> =
   ((TransactionType, None),
    \<lparr>bytes = [n, 0, 0, 0, 1, 0, 0, 0, 0, 1, 7, 0, 0, 0, 0, 0, 0],
     readOffset = 8, writeOffset = 0\<rparr>)"
  by (simp add: TypeFromMarshalUtil_def ReadUint32_def LittleEndian_Uint32_def
      TransactionType_def)

lemma sample_TransactionEssenceFromMarshalUtil:
  "TransactionEssenceFromMarshalUtil sampleCodec
     \<lparr>bytes = [n, 0, 0, 0, 1, 0, 0, 0, 0, 1, 7, 0, 0, 0, 0, 0, 0],
      readOffset = 8, writeOffset = 0\<rparr> =
   ((\<lparr>version = 0, inputs = [7], outputs = [], payload = None\<rparr>, None),
    \<lparr>bytes = [n, 0, 0, 0, 1, 0, 0, 0, 0, 1, 7, 0, 0, 0, 0, 0, 0],
     readOffset = 16, writeOffset = 0\<rparr>)"
  by (simp add: sample_parse_defs)

lemma sample_UnlockBlocksFromMarshalUtil:
  "UnlockBlocksFromMarshalUtil sampleCodec
     \<lparr>bytes = [n, 0, 0, 0, 1, 0, 0, 0, 0, 1, 7, 0, 0, 0, 0, 0, 0],
      readOffset = 16, writeOffset = 0\<rparr> =
   (([], None),
    \<lparr>bytes = [n, 0, 0, 0, 1, 0, 0, 0, 0, 1, 7, 0, 0, 0, 0, 0, 0],
     readOffset = 17, writeOffset = 0\<rparr>)"
  by (simp add: sample_parse_defs)

text \<open>
  C6. When the parser has read the payload size, the Transaction type, the essence and
  the unlock blocks, and the number of bytes read after the 4 bytes of the size is not
  the declared payload size, the parse fails with the error of the parsed-bytes check.
\<close>

theorem parsed_bytes_mismatch_rejected:
  assumes "ReadUint32 mu = (Inr payloadSize, mu1)"
    and "TypeFromMarshalUtil mu1 = ((TransactionType, None), mu2)"
    and "TransactionEssenceFromMarshalUtil c mu2 = ((ess, None), mu3)"
    and "UnlockBlocksFromMarshalUtil c mu3 = ((ubs, None), mu4)"
    and "int (readOffset mu4) - (int (readOffset mu) + 4) \<noteq> int (unat payloadSize)"
  shows "snd (fst (TransactionFromMarshalUtil c mu)) =
           Some (ParsedBytesMismatch (int (readOffset mu4) - int (readOffset mu)) payloadSize)"
  using assms by (simp add: TransactionFromMarshalUtil_def Let_def)

theorem parsed_bytes_mismatch_rejected_witness:
  "int (17 :: nat) - (int (0 :: nat) + 4) \<noteq> int (unat (12 :: uint32)) \<and>
   snd (fst (TransactionFromMarshalUtil sampleCodec
               (New_bytes [12, 0, 0, 0, 1, 0, 0, 0, 0, 1, 7, 0, 0, 0, 0, 0, 0]))) =
     Some (ParsedBytesMismatch 17 12)"
proof -
  let ?bs = "[12, 0, 0, 0, 1, 0, 0, 0, 0, 1, 7, 0, 0, 0, 0, 0, 0] :: byte list"
  have h1: "ReadUint32 (New_bytes ?bs) =
              (Inr 12, \<lparr>bytes = ?bs, readOffset = 4, writeOffset = 0\<rparr>)"
    using sample_ReadUint32 [of 12] by simp
  have h5: "int (readOffset \<lparr>bytes = ?bs, readOffset = 17, writeOffset = 0\<rparr>) -
              (int (readOffset (New_bytes ?bs)) + 4) \<noteq> int (unat (12 :: uint32))"
    by (simp add: New_bytes_def)
  from parsed_bytes_mismatch_rejected [OF h1 sample_TypeFromMarshalUtil
      sample_TransactionEssenceFromMarshalUtil sample_UnlockBlocksFromMarshalUtil h5]
  show ?thesis by (simp add: New_bytes_def)
qed

text \<open>
  C2. The claim: whenever the number of unlock blocks differs from the number of inputs,
  both \<open>NewTransaction\<close> and \<open>TransactionFromMarshalUtil\<close> fail with an arity-mismatch
  error and never yield a partially constructed Transaction. For \<open>NewTransaction\<close> this
  holds: it panics. The parser checks the number of parsed bytes before it compares the
  two amounts, so on the sample bytes with payload size 0 the error is the one of the
  parsed-bytes check, and the transaction returned next to it is the parsed object, not
  nil. As amended: \<open>NewTransaction\<close> panics with the two amounts and returns nothing;
  the parser, once it has read an essence and unlock blocks of different amounts,
  returns a non-nil error, the arity-mismatch error when the parsed bytes equal the
  payload size plus 4 and the parsed-bytes error otherwise, together with the parsed
  transaction object.
\<close>

theorem arity_mismatch_rejected:
  assumes "length ubs \<noteq> length (inputs ess)"
  shows "NewTransaction ess ubs =
           Inl (UnlockBlocksInputsMismatchPanic (length ubs) (length (inputs ess))) \<and>
         (\<forall>c mu payloadSize mu1 mu2 mu3 mu4.
            ReadUint32 mu = (Inr payloadSize, mu1) \<and>
            TypeFromMarshalUtil mu1 = ((TransactionType, None), mu2) \<and>
            TransactionEssenceFromMarshalUtil c mu2 = ((ess, None), mu3) \<and>
            UnlockBlocksFromMarshalUtil c mu3 = ((ubs, None), mu4) \<longrightarrow>
            TransactionFromMarshalUtil c mu =
              ((Some \<lparr>essence = ess, unlockBlocks = ubs\<rparr>,
                Some (if int (readOffset mu4) - int (readOffset mu) \<noteq>
                           int (unat payloadSize) + 4
                      then ParsedBytesMismatch
                             (int (readOffset mu4) - int (readOffset mu)) payloadSize
                      else UnlockBlocksInputsMismatch (length ubs) (length (inputs ess)))),
               mu4))"
  using assms by (auto simp: NewTransaction_def TransactionFromMarshalUtil_def Let_def)

theorem arity_mismatch_rejected_witness:
  "length ([] :: byte list) \<noteq>
     length (inputs (\<lparr>version = 0, inputs = [7 :: byte], outputs = [] :: byte list,
                      payload = None :: byte list option\<rparr>)) \<and>
   NewTransaction
       (\<lparr>version = 0, inputs = [7 :: byte], outputs = [] :: byte list,
         payload = None :: byte list option\<rparr>) ([] :: byte list) =
     Inl (UnlockBlocksInputsMismatchPanic 0 1) \<and>
   TransactionFromMarshalUtil sampleCodec
       (New_bytes [13, 0, 0, 0, 1, 0, 0, 0, 0, 1, 7, 0, 0, 0, 0, 0, 0]) =
     ((Some \<lparr>essence = \<lparr>version = 0, inputs = [7], outputs = [], payload = None\<rparr>,
             unlockBlocks = []\<rparr>,
       Some (UnlockBlocksInputsMismatch 0 1)),
      \<lparr>bytes = [13, 0, 0, 0, 1, 0, 0, 0, 0, 1, 7, 0, 0, 0, 0, 0, 0],
       readOffset = 17, writeOffset = 0\<rparr>)"
proof -
  let ?bs = "[13, 0, 0, 0, 1, 0, 0, 0, 0, 1, 7, 0, 0, 0, 0, 0, 0] :: byte list"
  let ?ess = "\<lparr>version = 0, inputs = [7 :: byte], outputs = [] :: byte list,
               payload = None :: byte list option\<rparr>"
  have h0: "length ([] :: byte list) \<noteq> length (inputs ?ess)"
    by simp
  have h1: "ReadUint32 (New_bytes ?bs) =
              (Inr 13, \<lparr>bytes = ?bs, readOffset = 4, writeOffset = 0\<rparr>)"
    using sample_ReadUint32 [of 13] by simp
  note r = arity_mismatch_rejected [OF h0]
  from r [THEN conjunct2, rule_format, of "New_bytes ?bs" 13 _ _ sampleCodec,
      OF conjI [OF h1 conjI [OF sample_TypeFromMarshalUtil
        conjI [OF sample_TransactionEssenceFromMarshalUtil
          sample_UnlockBlocksFromMarshalUtil]]]]
    r [THEN conjunct1] h0
  show ?thesis by (simp add: New_bytes_def)
qed

text \<open>
  C2, the counterexample: the sample bytes with payload size 0 hold one input and no
  unlock block, and the error is the one of the parsed-bytes check, returned next to
  the parsed transaction.
\<close>

theorem arity_mismatch_length_error_first:
  "length ([] :: byte list) \<noteq>
     length (inputs (\<lparr>version = 0, inputs = [7 :: byte], outputs = [] :: byte list,
                      payload = None :: byte list option\<rparr>)) \<and>
   fst (TransactionFromMarshalUtil sampleCodec
          (New_bytes [0, 0, 0, 0, 1, 0, 0, 0, 0, 1, 7, 0, 0, 0, 0, 0, 0])) =
     (Some \<lparr>essence = \<lparr>version = 0, inputs = [7], outputs = [], payload = None\<rparr>,
            unlockBlocks = []\<rparr>,
      Some (ParsedBytesMismatch 17 0))"
  by (simp add: sample_parse_defs)

end
